theory Spec2Isabelle
  imports Complex_Main
begin

section \<open>The data model of \<^verbatim>\<open>src/interfaces.ts\<close>\<close>

text \<open>
  The file declares the shape of everything the FarmBot reports about itself. Each
  interface is a record, each union of string literals a datatype, each index signature
  (\<^verbatim>\<open>Dictionary<T>\<close>, \<^verbatim>\<open>Partial<Record<K, T>>\<close>) a partial map.

  A property declared \<^verbatim>\<open>f?: T\<close> or of type \<^verbatim>\<open>T | undefined\<close> is an \<open>option\<close>:
  \<open>None\<close> is what reading the property gives when the key is missing or holds
  \<^verbatim>\<open>undefined\<close> (JavaScript reads \<^verbatim>\<open>undefined\<close> in both cases), \<open>Some v\<close> a known value.
  A \<^verbatim>\<open>number\<close> is a real number here: no claim below depends on floating-point
  arithmetic. The declarations no claim is about (\<^verbatim>\<open>Primitive\<close>, \<^verbatim>\<open>Encoder\<close>, \<^verbatim>\<open>Vector3\<close>,
  \<^verbatim>\<open>MQTTEventName\<close>, \<^verbatim>\<open>APIToken\<close>) are left out.
\<close>

type_synonym number = real

type_synonym 'a Dictionary = "string \<rightharpoonup> 'a"

datatype FirmwareHardware = arduino | farmduino | farmduino_k14

datatype LocationName = position | scaled_encoders | raw_encoders

text \<open>\<^verbatim>\<open>"complete"\<close> is written \<open>complete'\<close>: \<open>complete\<close> is a constant of the library.\<close>

datatype ProgressStatus = complete' | working | error

record PercentageProgress =
  status :: ProgressStatus
  percent :: number

record BytesProgress =
  status :: ProgressStatus
  bytes :: number

text \<open>
  \<^verbatim>\<open>JobProgress = PercentageProgress | BytesProgress\<close>. The property \<^verbatim>\<open>unit\<close> has a
  literal type in each interface (\<^verbatim>\<open>"percent"\<close>, \<^verbatim>\<open>"bytes"\<close>), so it is the tag of the
  union and carries nothing else.
\<close>

datatype JobProgress = Percentage PercentageProgress | Bytes BytesProgress

record Enigma =
  created_at :: number
  problem_tag :: string
  priority :: number
  uuid :: string

text \<open>\<^verbatim>\<open>zip\<close> is written \<open>zip'\<close>: \<open>zip\<close> is a constant of the library.\<close>

record LegacyFarmwareManifestMeta =
  min_os_version_major :: string
  description :: string
  language :: string
  version :: string
  author :: string
  zip' :: string

text \<open>\<^verbatim>\<open>FarmwareConfig = Record<"name" | "label" | "value", string>\<close>.\<close>

record FarmwareConfig =
  name :: string
  label :: string
  "value" :: string

record LegacyFarmwareManifest =
  farmware_tools_version :: "string option"
  executable :: string
  uuid :: string
  args :: "string list"
  name :: string
  url :: string
  path :: string
  meta :: LegacyFarmwareManifestMeta
  config :: "FarmwareConfig list"

record FarmwareManifest =
  farmware_manifest_version :: string
  package :: string
  package_version :: string
  description :: string
  author :: string
  language :: string
  executable :: string
  args :: string
  config :: "FarmwareConfig Dictionary"
  farmbot_os_version_requirement :: string
  farmware_tools_version_requirement :: string
  url :: string
  zip' :: string

text \<open>The union \<^verbatim>\<open>FarmwareManifest | LegacyFarmwareManifest\<close> of \<^verbatim>\<open>process_info.farmwares\<close>.\<close>

datatype Manifest = Current FarmwareManifest | Legacy LegacyFarmwareManifest

text \<open>
  \<^verbatim>\<open>McuParamName\<close>: the names of the firmware parameters, in the order of the source.
  The datatype is declared without the size and code plugins, which nothing below uses.
\<close>

datatype (plugins only: ) McuParamName =
    encoder_enabled_x
  | encoder_enabled_y
  | encoder_enabled_z
  | encoder_invert_x
  | encoder_invert_y
  | encoder_invert_z
  | encoder_missed_steps_decay_x
  | encoder_missed_steps_decay_y
  | encoder_missed_steps_decay_z
  | encoder_missed_steps_max_x
  | encoder_missed_steps_max_y
  | encoder_missed_steps_max_z
  | encoder_scaling_x
  | encoder_scaling_y
  | encoder_scaling_z
  | encoder_type_x
  | encoder_type_y
  | encoder_type_z
  | encoder_use_for_pos_x
  | encoder_use_for_pos_y
  | encoder_use_for_pos_z
  | movement_axis_nr_steps_x
  | movement_axis_nr_steps_y
  | movement_axis_nr_steps_z
  | movement_enable_endpoints_x
  | movement_enable_endpoints_y
  | movement_enable_endpoints_z
  | movement_home_at_boot_x
  | movement_home_at_boot_y
  | movement_home_at_boot_z
  | movement_home_spd_x
  | movement_home_spd_y
  | movement_home_spd_z
  | movement_home_up_x
  | movement_home_up_y
  | movement_home_up_z
  | movement_invert_2_endpoints_x
  | movement_invert_2_endpoints_y
  | movement_invert_2_endpoints_z
  | movement_invert_endpoints_x
  | movement_invert_endpoints_y
  | movement_invert_endpoints_z
  | movement_invert_motor_x
  | movement_invert_motor_y
  | movement_invert_motor_z
  | movement_keep_active_x
  | movement_keep_active_y
  | movement_keep_active_z
  | movement_max_spd_x
  | movement_max_spd_y
  | movement_max_spd_z
  | movement_min_spd_x
  | movement_min_spd_y
  | movement_min_spd_z
  | movement_secondary_motor_invert_x
  | movement_secondary_motor_x
  | movement_step_per_mm_x
  | movement_step_per_mm_y
  | movement_step_per_mm_z
  | movement_steps_acc_dec_x
  | movement_steps_acc_dec_y
  | movement_steps_acc_dec_z
  | movement_stop_at_home_x
  | movement_stop_at_home_y
  | movement_stop_at_home_z
  | movement_stop_at_max_x
  | movement_stop_at_max_y
  | movement_stop_at_max_z
  | movement_timeout_x
  | movement_timeout_y
  | movement_timeout_z
  | param_e_stop_on_mov_err
  | param_mov_nr_retry
  | param_version
  | pin_guard_1_active_state
  | pin_guard_1_pin_nr
  | pin_guard_1_time_out
  | pin_guard_2_active_state
  | pin_guard_2_pin_nr
  | pin_guard_2_time_out
  | pin_guard_3_active_state
  | pin_guard_3_pin_nr
  | pin_guard_3_time_out
  | pin_guard_4_active_state
  | pin_guard_4_pin_nr
  | pin_guard_4_time_out
  | pin_guard_5_active_state
  | pin_guard_5_pin_nr
  | pin_guard_5_time_out

text \<open>\<^verbatim>\<open>McuParams = Partial<Record<McuParamName, (number | undefined)>>\<close>.\<close>

type_synonym McuParams = "McuParamName \<rightharpoonup> number"

datatype Xyz = x | y | z

record Pin =
  mode :: number
  "value" :: number

type_synonym Pins = "Pin Dictionary"

text \<open>\<^verbatim>\<open>Configuration = Partial<FullConfiguration>\<close>: every property optional.\<close>

record Configuration =
  arduino_debug_messages :: "number option"
  auto_sync :: "bool option"
  beta_opt_in :: "bool option"
  disable_factory_reset :: "bool option"
  firmware_hardware :: "FirmwareHardware option"
  firmware_input_log :: "bool option"
  firmware_output_log :: "bool option"
  fw_auto_update :: "number option"
  network_not_found_timer :: "number option"
  os_auto_update :: "number option"
  sequence_body_log :: "bool option"
  sequence_complete_log :: "bool option"
  sequence_init_log :: "bool option"

datatype SyncStatus =
  booting | maintenance | sync_error | sync_now | synced | syncing | unknown

record InformationalSettings =
  uptime :: "number option"
  disk_usage :: "number option"
  memory_usage :: "number option"
  soc_temp :: "number option"
  wifi_level :: "number option"
  controller_version :: "string option"
  firmware_version :: "string option"
  throttled :: "string option"
  private_ip :: "string option"
  sync_status :: "SyncStatus option"
  busy :: bool
  locked :: bool
  commit :: string
  firmware_commit :: string
  target :: string
  env :: string
  node_name :: string
  currently_on_beta :: "bool option"
  update_available :: "bool option"

record ProcessInfo =
  farmwares :: "Manifest Dictionary"

text \<open>
  \<^verbatim>\<open>location_data: Record<LocationName, Record<Xyz, (number | undefined)>>\<close>: both
  records are total over their key type, the number at an axis may be \<^verbatim>\<open>undefined\<close>.
\<close>

type_synonym LocationData = "LocationName \<Rightarrow> Xyz \<Rightarrow> number option"

record BotStateTree =
  mcu_params :: McuParams
  location_data :: LocationData
  pins :: Pins
  configuration :: Configuration
  informational_settings :: InformationalSettings
  user_env :: "string Dictionary"
  jobs :: "JobProgress Dictionary"
  process_info :: ProcessInfo
  gpio_registry :: "(number \<rightharpoonup> string) option"
  enigmas :: "Enigma Dictionary option"

section \<open>The JavaScript objects the interfaces describe\<close>

text \<open>
  An interface says which own properties an object has and what each holds. To state
  that a property is present, or that it holds a string rather than an array, the
  values are mapped to the objects they stand for: a declared property is a key of the
  object, an optional property with no value is no key, and a property of type
  \<^verbatim>\<open>T | undefined\<close> under a required key holds \<^verbatim>\<open>undefined\<close> when it has no value.
\<close>

datatype JsValue =
    JUndefined
  | JNumber number
  | JBoolean bool
  | JString string
  | JArray "JsValue list"
  | JObject "string \<Rightarrow> JsValue option"

text \<open>An object literal: the listed properties, in the order of the interface.\<close>

definition obj :: "(string \<times> JsValue) list \<Rightarrow> JsValue" where
  "obj ps = JObject (map_of ps)"

text \<open>An optional property \<^verbatim>\<open>k?: T\<close>: a key only when it has a value.\<close>

fun optional :: "string \<Rightarrow> ('a \<Rightarrow> 'b) \<Rightarrow> 'a option \<Rightarrow> (string \<times> 'b) list" where
  "optional k f None = []"
| "optional k f (Some v) = [(k, f v)]"

text \<open>Reading the own property \<open>k\<close>; \<open>None\<close> when the value has no such key.\<close>

fun property :: "JsValue \<Rightarrow> string \<Rightarrow> JsValue option" where
  "property (JObject m) k = m k"
| "property _ k = None"

text \<open>A value of type \<^verbatim>\<open>T | undefined\<close> under a required key.\<close>

fun or_undefined :: "('a \<Rightarrow> JsValue) \<Rightarrow> 'a option \<Rightarrow> JsValue" where
  "or_undefined f None = JUndefined"
| "or_undefined f (Some v) = f v"

fun ProgressStatus_js :: "ProgressStatus \<Rightarrow> JsValue" where
  "ProgressStatus_js complete' = JString ''complete''"
| "ProgressStatus_js working = JString ''working''"
| "ProgressStatus_js error = JString ''error''"

fun JobProgress_js :: "JobProgress \<Rightarrow> JsValue" where
  "JobProgress_js (Percentage p) =
     obj [(''status'', ProgressStatus_js (PercentageProgress.status p)),
          (''unit'', JString ''percent''),
          (''percent'', JNumber (percent p))]"
| "JobProgress_js (Bytes b) =
     obj [(''status'', ProgressStatus_js (BytesProgress.status b)),
          (''unit'', JString ''bytes''),
          (''bytes'', JNumber (bytes b))]"

definition LegacyFarmwareManifestMeta_js :: "LegacyFarmwareManifestMeta \<Rightarrow> JsValue" where
  "LegacyFarmwareManifestMeta_js m =
     obj [(''min_os_version_major'', JString (min_os_version_major m)),
          (''description'', JString (LegacyFarmwareManifestMeta.description m)),
          (''language'', JString (LegacyFarmwareManifestMeta.language m)),
          (''version'', JString (version m)),
          (''author'', JString (LegacyFarmwareManifestMeta.author m)),
          (''zip'', JString (LegacyFarmwareManifestMeta.zip' m))]"

definition FarmwareConfig_js :: "FarmwareConfig \<Rightarrow> JsValue" where
  "FarmwareConfig_js c =
     obj [(''name'', JString (FarmwareConfig.name c)),
          (''label'', JString (label c)),
          (''value'', JString (FarmwareConfig.value c))]"

definition LegacyFarmwareManifest_js :: "LegacyFarmwareManifest \<Rightarrow> JsValue" where
  "LegacyFarmwareManifest_js l =
     obj (optional ''farmware_tools_version'' JString (farmware_tools_version l) @
          [(''executable'', JString (LegacyFarmwareManifest.executable l)),
           (''uuid'', JString (LegacyFarmwareManifest.uuid l)),
           (''args'', JArray (map JString (LegacyFarmwareManifest.args l))),
           (''name'', JString (LegacyFarmwareManifest.name l)),
           (''url'', JString (LegacyFarmwareManifest.url l)),
           (''path'', JString (path l)),
           (''meta'', LegacyFarmwareManifestMeta_js (meta l)),
           (''config'', JArray (map FarmwareConfig_js (LegacyFarmwareManifest.config l)))])"

definition FarmwareManifest_js :: "FarmwareManifest \<Rightarrow> JsValue" where
  "FarmwareManifest_js c =
     obj [(''farmware_manifest_version'', JString (farmware_manifest_version c)),
          (''package'', JString (package c)),
          (''package_version'', JString (package_version c)),
          (''description'', JString (FarmwareManifest.description c)),
          (''author'', JString (FarmwareManifest.author c)),
          (''language'', JString (FarmwareManifest.language c)),
          (''executable'', JString (FarmwareManifest.executable c)),
          (''args'', JString (FarmwareManifest.args c)),
          (''config'', JObject (map_option FarmwareConfig_js \<circ> FarmwareManifest.config c)),
          (''farmbot_os_version_requirement'', JString (farmbot_os_version_requirement c)),
          (''farmware_tools_version_requirement'', JString (farmware_tools_version_requirement c)),
          (''url'', JString (FarmwareManifest.url c)),
          (''zip'', JString (FarmwareManifest.zip' c))]"

fun Manifest_js :: "Manifest \<Rightarrow> JsValue" where
  "Manifest_js (Current c) = FarmwareManifest_js c"
| "Manifest_js (Legacy l) = LegacyFarmwareManifest_js l"

fun SyncStatus_js :: "SyncStatus \<Rightarrow> JsValue" where
  "SyncStatus_js booting = JString ''booting''"
| "SyncStatus_js maintenance = JString ''maintenance''"
| "SyncStatus_js sync_error = JString ''sync_error''"
| "SyncStatus_js sync_now = JString ''sync_now''"
| "SyncStatus_js synced = JString ''synced''"
| "SyncStatus_js syncing = JString ''syncing''"
| "SyncStatus_js unknown = JString ''unknown''"

definition InformationalSettings_js :: "InformationalSettings \<Rightarrow> JsValue" where
  "InformationalSettings_js i =
     obj (optional ''uptime'' JNumber (uptime i) @
          optional ''disk_usage'' JNumber (disk_usage i) @
          optional ''memory_usage'' JNumber (memory_usage i) @
          optional ''soc_temp'' JNumber (soc_temp i) @
          optional ''wifi_level'' JNumber (wifi_level i) @
          optional ''controller_version'' JString (controller_version i) @
          optional ''firmware_version'' JString (firmware_version i) @
          optional ''throttled'' JString (throttled i) @
          optional ''private_ip'' JString (private_ip i) @
          optional ''sync_status'' SyncStatus_js (sync_status i) @
          [(''busy'', JBoolean (busy i)),
           (''locked'', JBoolean (locked i)),
           (''commit'', JString (commit i)),
           (''firmware_commit'', JString (firmware_commit i)),
           (''target'', JString (target i)),
           (''env'', JString (env i)),
           (''node_name'', JString (node_name i))] @
          optional ''currently_on_beta'' JBoolean (currently_on_beta i) @
          optional ''update_available'' JBoolean (update_available i))"

definition Xyz_js :: "(Xyz \<Rightarrow> number option) \<Rightarrow> JsValue" where
  "Xyz_js r =
     obj [(''x'', or_undefined JNumber (r x)),
          (''y'', or_undefined JNumber (r y)),
          (''z'', or_undefined JNumber (r z))]"

definition LocationData_js :: "LocationData \<Rightarrow> JsValue" where
  "LocationData_js ld =
     obj [(''position'', Xyz_js (ld position)),
          (''scaled_encoders'', Xyz_js (ld scaled_encoders)),
          (''raw_encoders'', Xyz_js (ld raw_encoders))]"

subsection \<open>The objects a type admits\<close>

text \<open>
  TypeScript's types are structural, and the union \<^verbatim>\<open>FarmwareManifest |
  LegacyFarmwareManifest\<close> of \<^verbatim>\<open>process_info.farmwares\<close> carries no tag: an object is of
  an interface when it has the declared properties with the declared types, whatever
  other properties it has. \<open>Manifest_js\<close> above gives the objects with exactly the
  declared properties; the predicates below say which objects the declarations admit.
\<close>

fun is_undefined :: "JsValue \<Rightarrow> bool" where
  "is_undefined JUndefined = True"
| "is_undefined _ = False"

fun is_string :: "JsValue \<Rightarrow> bool" where
  "is_string (JString s) = True"
| "is_string _ = False"

text \<open>\<^verbatim>\<open>T[]\<close>: an array whose elements are all of type \<open>T\<close>.\<close>

fun is_array_of :: "(JsValue \<Rightarrow> bool) \<Rightarrow> JsValue \<Rightarrow> bool" where
  "is_array_of T (JArray vs) = list_all T vs"
| "is_array_of T _ = False"

text \<open>\<^verbatim>\<open>Dictionary<T>\<close>: an object whose properties are all of type \<open>T\<close>.\<close>

fun is_dictionary_of :: "(JsValue \<Rightarrow> bool) \<Rightarrow> JsValue \<Rightarrow> bool" where
  "is_dictionary_of T (JObject m) = (\<forall>k. case m k of None \<Rightarrow> True | Some w \<Rightarrow> T w)"
| "is_dictionary_of T _ = False"

text \<open>A declared property \<^verbatim>\<open>k: T\<close>, and an optional one \<^verbatim>\<open>k?: T\<close>.\<close>

definition required :: "(JsValue \<Rightarrow> bool) \<Rightarrow> JsValue \<Rightarrow> string \<Rightarrow> bool" where
  "required T v k = (case property v k of None \<Rightarrow> False | Some w \<Rightarrow> T w)"

definition may_have :: "(JsValue \<Rightarrow> bool) \<Rightarrow> JsValue \<Rightarrow> string \<Rightarrow> bool" where
  "may_have T v k = (case property v k of None \<Rightarrow> True | Some w \<Rightarrow> is_undefined w \<or> T w)"

definition is_FarmwareConfig :: "JsValue \<Rightarrow> bool" where
  "is_FarmwareConfig v \<longleftrightarrow>
     required is_string v ''name'' \<and>
     required is_string v ''label'' \<and>
     required is_string v ''value''"

definition is_LegacyFarmwareManifestMeta :: "JsValue \<Rightarrow> bool" where
  "is_LegacyFarmwareManifestMeta v \<longleftrightarrow>
     required is_string v ''min_os_version_major'' \<and>
     required is_string v ''description'' \<and>
     required is_string v ''language'' \<and>
     required is_string v ''version'' \<and>
     required is_string v ''author'' \<and>
     required is_string v ''zip''"

definition is_LegacyFarmwareManifest :: "JsValue \<Rightarrow> bool" where
  "is_LegacyFarmwareManifest v \<longleftrightarrow>
     may_have is_string v ''farmware_tools_version'' \<and>
     required is_string v ''executable'' \<and>
     required is_string v ''uuid'' \<and>
     required (is_array_of is_string) v ''args'' \<and>
     required is_string v ''name'' \<and>
     required is_string v ''url'' \<and>
     required is_string v ''path'' \<and>
     required is_LegacyFarmwareManifestMeta v ''meta'' \<and>
     required (is_array_of is_FarmwareConfig) v ''config''"

definition is_FarmwareManifest :: "JsValue \<Rightarrow> bool" where
  "is_FarmwareManifest v \<longleftrightarrow>
     required is_string v ''farmware_manifest_version'' \<and>
     required is_string v ''package'' \<and>
     required is_string v ''package_version'' \<and>
     required is_string v ''description'' \<and>
     required is_string v ''author'' \<and>
     required is_string v ''language'' \<and>
     required is_string v ''executable'' \<and>
     required is_string v ''args'' \<and>
     required (is_dictionary_of is_FarmwareConfig) v ''config'' \<and>
     required is_string v ''farmbot_os_version_requirement'' \<and>
     required is_string v ''farmware_tools_version_requirement'' \<and>
     required is_string v ''url'' \<and>
     required is_string v ''zip''"

text \<open>The type of the values of \<^verbatim>\<open>process_info.farmwares\<close>.\<close>

definition is_Manifest :: "JsValue \<Rightarrow> bool" where
  "is_Manifest v \<longleftrightarrow> is_FarmwareManifest v \<or> is_LegacyFarmwareManifest v"

section \<open>The engine of the specification\<close>

text \<open>
  \<^verbatim>\<open>src/interfaces.ts\<close> declares the state tree; the code that merges updates into it
  and that correlates commands with replies is not among the source files. The StateTree
  Store, the Correlator, the Ingress Router and the Dispatcher below are modelled from
  sections 3 to 7 of the specification, over the JavaScript objects of the section above.
\<close>

subsection \<open>StateTree Store\<close>

text \<open>
  Modelled from the spec: the tree the store holds and the type \<^verbatim>\<open>PartialStateTree\<close> of
  the argument of \<^verbatim>\<open>merge\<close> are missing from the source, which declares only the type of
  a whole state tree. The store holds the state tree as the JavaScript object it is. A
  partial update (the glossary: "an inbound message containing only changed fields") is
  an object of the same shape in which any field, at any depth, may be omitted or hold
  \<^verbatim>\<open>undefined\<close>. A field is named by its path, the property names from the root, as in
  \<open>[''pins'', ''1'', ''mode'']\<close>.

  Modelled from the spec: the values the merge descends into, the "nested mappings" of
  section 4.1. They are the objects; an array is one value.
\<close>

fun is_mapping :: "JsValue \<Rightarrow> bool" where
  "is_mapping (JObject m) = True"
| "is_mapping _ = False"

text \<open>
  Modelled from the spec: reading the field \<open>k\<close> of a value. It is \<^verbatim>\<open>undefined\<close> when the
  value is not a mapping or has no such key.
\<close>

definition child :: "JsValue \<Rightarrow> string \<Rightarrow> JsValue" where
  "child v k = (case property v k of None \<Rightarrow> JUndefined | Some w \<Rightarrow> w)"

text \<open>
  Modelled from the spec: reading the field at a path. A field is unknown in a tree, and
  absent from an update, when this reads \<^verbatim>\<open>undefined\<close>: the key is omitted, or holds
  \<^verbatim>\<open>undefined\<close>, at the field or above it.
\<close>

primrec field_at :: "JsValue \<Rightarrow> string list \<Rightarrow> JsValue" where
  "field_at v [] = v"
| "field_at v (k # ks) = field_at (child v k) ks"

text \<open>
  Modelled from the spec: a present value that is not a mapping (a number, a string, a
  boolean, an array) "overwrites the corresponding existing field", section 4.1. Where the
  tree holds a mapping, putting such a value in its place would make every field of the
  mapping unknown; section 3 rules that out ("Merges must never downgrade a known value
  to unknown"), so the mapping stays. No update of the tree's own shape has a value that
  is not a mapping where the tree has a mapping.
\<close>

definition overwrite :: "JsValue \<Rightarrow> JsValue \<Rightarrow> JsValue" where
  "overwrite old new = (if is_mapping old then old else new)"

text \<open>
  Modelled from the spec: \<^verbatim>\<open>merge\<close> is missing from the source. Section 4.1: it "applies a
  structural, field-by-field union where each present field/sub-map overwrites the
  corresponding existing field and each absent field leaves the existing value untouched
  (recursive for nested mappings, not a full replace)". \<open>merge_into new old\<close> merges the
  update \<open>new\<close> into the value \<open>old\<close>: an absent update leaves \<open>old\<close>; a mapping is merged
  key by key, each present key into the field of \<open>old\<close> under that key, each absent key
  leaving what \<open>old\<close> has; any other value overwrites.
\<close>

primrec merge_into :: "JsValue \<Rightarrow> JsValue \<Rightarrow> JsValue" where
  "merge_into JUndefined old = old"
| "merge_into (JNumber n) old = overwrite old (JNumber n)"
| "merge_into (JBoolean b) old = overwrite old (JBoolean b)"
| "merge_into (JString t) old = overwrite old (JString t)"
| "merge_into (JArray vs) old = overwrite old (JArray vs)"
| "merge_into (JObject new) old =
     JObject (\<lambda>k. case map_option merge_into (new k) of
                    None \<Rightarrow> property old k
                  | Some into \<Rightarrow> Some (into (child old k)))"

text \<open>
  Modelled from the spec: \<^verbatim>\<open>merge(partial)\<close> of the StateTree Store, with the store's
  tree passed in and the merged tree returned.
\<close>

definition merge :: "JsValue \<Rightarrow> JsValue \<Rightarrow> JsValue" where
  "merge S P = merge_into P S"

text \<open>
  Modelled from the spec: \<^verbatim>\<open>replaceAll(full)\<close> of the StateTree Store, section 4.1:
  "discard stale state and re-baseline".
\<close>

definition replaceAll :: "JsValue \<Rightarrow> JsValue \<Rightarrow> JsValue" where
  "replaceAll S full = full"

text \<open>
  Modelled from the spec: the tree the store holds before the first snapshot arrives,
  section 3: "StateTree is created empty at engine start".
\<close>

definition initial_tree :: JsValue where
  "initial_tree = obj []"

subsection \<open>Correlator\<close>

text \<open>
  Modelled from the spec: the Correlator is missing from the source. Section 3 gives the
  record of one outstanding command, section 7 the errors a caller can receive. A
  correlation id is a number here (section 4.2 allows a "monotonically incrementing"
  identifier); a result is any JavaScript value.
\<close>

type_synonym CorrelationId = nat

text \<open>Modelled from the spec: the error taxonomy of section 7.\<close>

datatype EngineError =
    TransportError
  | TimeoutError
  | DeviceError string
  | ConnectionLostError
  | MalformedMessageError

text \<open>Modelled from the spec: what a handle receives, a result or an error.\<close>

datatype Outcome = Result JsValue | Failed EngineError

text \<open>
  Modelled from the spec: the resolution state of section 3, "pending / resolved-success
  / resolved-error / timed-out".
\<close>

datatype ResolutionState = pending | resolved_success | resolved_error | timed_out

text \<open>
  Modelled from the spec: \<^verbatim>\<open>PendingCommand\<close>, section 3: "correlation id (...), submission
  timestamp, optional timeout duration, resolution state (...), and the value or error
  to deliver to the original caller once resolved".
\<close>

record PendingCommand =
  correlation_id :: CorrelationId
  submitted_at :: nat
  timeout_duration :: "nat option"
  resolution :: ResolutionState
  outcome :: "Outcome option"

text \<open>
  Modelled from the spec: the state of the Correlator. \<open>commands\<close> holds the outstanding
  commands by id. \<open>handles i\<close> is what the handle returned for \<open>i\<close> has received so far,
  oldest first: a future that is settled once holds one outcome, and a second delivery
  would show as a second element. \<open>ignored\<close> is the log of calls that found no pending
  command.
\<close>

record Correlator =
  commands :: "CorrelationId \<rightharpoonup> PendingCommand"
  handles :: "CorrelationId \<Rightarrow> Outcome list"
  ignored :: "CorrelationId list"

text \<open>
  Modelled from the spec: \<^verbatim>\<open>register(id)\<close>, section 4.2: "creates a PendingCommand and
  returns a future/promise-like handle". The handle is named by the id.
\<close>

definition register :: "CorrelationId \<Rightarrow> nat \<Rightarrow> nat option \<Rightarrow> Correlator \<Rightarrow> Correlator" where
  "register i now t C =
     C\<lparr>commands := (commands C)
          (i \<mapsto> \<lparr>correlation_id = i, submitted_at = now, timeout_duration = t,
                 resolution = pending, outcome = None\<rparr>)\<rparr>"

text \<open>
  Modelled from the spec: the step \<^verbatim>\<open>resolve\<close>, \<^verbatim>\<open>reject\<close> and \<^verbatim>\<open>expire\<close> share, section
  4.2: they "transition a PendingCommand from pending to resolved, delivering the
  result/error to the handle exactly once; calling either on an already-resolved or
  unknown id is a no-op that is logged, never a crash". Section 3: an entry is
  "destroyed on resolution or timeout".
\<close>

definition settle :: "CorrelationId \<Rightarrow> Outcome \<Rightarrow> Correlator \<Rightarrow> Correlator" where
  "settle i out C =
     (case commands C i of
        None \<Rightarrow> C\<lparr>ignored := ignored C @ [i]\<rparr>
      | Some pc \<Rightarrow>
          if resolution pc = pending
          then C\<lparr>commands := (commands C)(i := None),
                 handles := (handles C)(i := handles C i @ [out])\<rparr>
          else C\<lparr>ignored := ignored C @ [i]\<rparr>)"

text \<open>Modelled from the spec: \<^verbatim>\<open>resolve(id, result)\<close>.\<close>

definition resolve :: "CorrelationId \<Rightarrow> JsValue \<Rightarrow> Correlator \<Rightarrow> Correlator" where
  "resolve i r C = settle i (Result r) C"

text \<open>Modelled from the spec: \<^verbatim>\<open>reject(id, error)\<close>.\<close>

definition reject :: "CorrelationId \<Rightarrow> EngineError \<Rightarrow> Correlator \<Rightarrow> Correlator" where
  "reject i e C = settle i (Failed e) C"

text \<open>
  Modelled from the spec: \<^verbatim>\<open>expire(id)\<close>, which delivers "a timeout error to the handle".
\<close>

definition expire :: "CorrelationId \<Rightarrow> Correlator \<Rightarrow> Correlator" where
  "expire i C = settle i (Failed TimeoutError) C"

text \<open>Modelled from the spec: the Correlator at engine start, with nothing outstanding.\<close>

definition initial_correlator :: Correlator where
  "initial_correlator = \<lparr>commands = Map.empty, handles = (\<lambda>i. []), ignored = []\<rparr>"

subsection \<open>Ingress Router and Dispatcher\<close>

text \<open>
  Modelled from the spec: the status a command reply carries, a result or the detail of
  a failure the device reports (section 4.3: "a device-reported error status resolves
  the future with a domain error").
\<close>

datatype ReplyStatus = Ok JsValue | DeviceFailure string

text \<open>
  Modelled from the spec: the inbound messages of section 4.4, after the codec of
  section 6 has decoded them ("kind + payload + optional correlation id").
\<close>

datatype InboundMessage =
    Snapshot JsValue
  | Delta JsValue
  | Reply CorrelationId ReplyStatus
  | Unrecognized

text \<open>
  Modelled from the spec: the envelope of section 4.3, the command with the "fresh
  correlation id" embedded.
\<close>

record Envelope =
  envelope_id :: CorrelationId
  command :: JsValue

text \<open>
  Modelled from the spec: the result of \<^verbatim>\<open>publish\<close>, section 6:
  \<^verbatim>\<open>Result<(), TransportError>\<close>.
\<close>

datatype PublishResult = PublishOk | PublishFailed

text \<open>
  Modelled from the spec: the Transport of section 6, as a test double sees it. Its
  \<^verbatim>\<open>publish\<close> returns whether the envelope went out, and the inbound messages it
  delivers to the engine in the same tick, before \<^verbatim>\<open>publish\<close> returns (section 8: "a
  test double transport that synchronously echoes a reply immediately after publish").
\<close>

type_synonym Transport = "Envelope \<Rightarrow> PublishResult \<times> InboundMessage list"

text \<open>
  Modelled from the spec: the two steps of \<^verbatim>\<open>send\<close> whose order section 5 fixes
  ("register-before-publish").
\<close>

datatype Event = Registered CorrelationId | Published CorrelationId

text \<open>
  Modelled from the spec: the engine, with the trace of what \<^verbatim>\<open>send\<close> did in the order
  it did it, the timers the Dispatcher started (by id, with their deadline) and the
  number of messages dropped as unrecognized.
\<close>

record Engine =
  tree :: JsValue
  correlator :: Correlator
  next_id :: CorrelationId
  default_timeout :: nat
  timers :: "CorrelationId \<rightharpoonup> nat"
  events :: "Event list"
  dropped :: nat

text \<open>
  Modelled from the spec: the matching rule of section 4.2, "an inbound reply message is
  correlated to a PendingCommand solely by its embedded correlation id".
\<close>

fun reply_id :: "InboundMessage \<Rightarrow> CorrelationId option" where
  "reply_id (Reply i st) = Some i"
| "reply_id _ = None"

text \<open>Modelled from the spec: the outcome a reply's status stands for.\<close>

fun reply_outcome :: "ReplyStatus \<Rightarrow> Outcome" where
  "reply_outcome (Ok r) = Result r"
| "reply_outcome (DeviceFailure detail) = Failed (DeviceError detail)"

text \<open>
  Modelled from the spec: \<^verbatim>\<open>handle(rawMessage)\<close> of the Ingress Router, section 4.4: "(1)
  full-state snapshot \<rightarrow> StateTree.replaceAll; (2) partial-state delta \<rightarrow>
  StateTree.merge; (3) command reply (bearing a correlation id) \<rightarrow>
  Correlator.resolve/reject; (4) unrecognized/malformed message \<rightarrow> dropped".
\<close>

fun handle :: "InboundMessage \<Rightarrow> Engine \<Rightarrow> Engine" where
  "handle (Snapshot full) E = E\<lparr>tree := replaceAll (tree E) full\<rparr>"
| "handle (Delta P) E = E\<lparr>tree := merge (tree E) P\<rparr>"
| "handle (Reply i (Ok r)) E = E\<lparr>correlator := resolve i r (correlator E)\<rparr>"
| "handle (Reply i (DeviceFailure detail)) E =
     E\<lparr>correlator := reject i (DeviceError detail) (correlator E)\<rparr>"
| "handle Unrecognized E = E\<lparr>dropped := Suc (dropped E)\<rparr>"

text \<open>
  Modelled from the spec: the messages of one tick, handled in the order they arrive
  (\<^verbatim>\<open>handle\<close> is "called once per inbound transport delivery").
\<close>

definition handle_all :: "InboundMessage list \<Rightarrow> Engine \<Rightarrow> Engine" where
  "handle_all ms E = foldl (\<lambda>e m. handle m e) E ms"

text \<open>Modelled from the spec: the options of \<^verbatim>\<open>send\<close>, \<^verbatim>\<open>opts.timeout\<close>.\<close>

record SendOptions =
  timeout :: "nat option"

text \<open>
  Modelled from the spec: \<^verbatim>\<open>send(command, opts)\<close> of the Dispatcher, section 4.3:
  "constructs an envelope embedding a fresh correlation id, registers it with the
  Correlator before transmission (...), hands the serialized envelope to the transport
  collaborator for publication, and starts a timeout timer per \<^verbatim>\<open>opts.timeout\<close> (default
  policy if unspecified)"; "transport publish failure rejects the future immediately
  with a transport error". It returns the handle and the engine after the call.
\<close>

definition send ::
  "Transport \<Rightarrow> nat \<Rightarrow> JsValue \<Rightarrow> SendOptions \<Rightarrow> Engine \<Rightarrow> CorrelationId \<times> Engine" where
  "send publish now cmd opts E =
     (let i = next_id E;
          E1 = E\<lparr>correlator := register i now (timeout opts) (correlator E),
                 next_id := Suc i,
                 events := events E @ [Registered i]\<rparr>;
          (result, inbound) = publish \<lparr>envelope_id = i, command = cmd\<rparr>;
          E2 = handle_all inbound (E1\<lparr>events := events E1 @ [Published i]\<rparr>)
      in (i,
          case result of
            PublishFailed \<Rightarrow> E2\<lparr>correlator := reject i TransportError (correlator E2)\<rparr>
          | PublishOk \<Rightarrow>
              E2\<lparr>timers := (timers E2)
                     (i \<mapsto> now + (case timeout opts of
                                    None \<Rightarrow> default_timeout E2
                                  | Some t \<Rightarrow> t))\<rparr>))"

text \<open>
  Modelled from the spec: the engine at start. The spec leaves the default timeout open
  ("default policy if unspecified"); it is 30000 here.
\<close>

definition initial_engine :: Engine where
  "initial_engine =
     \<lparr>tree = initial_tree, correlator = initial_correlator, next_id = 0,
      default_timeout = 30000, timers = Map.empty, events = [], dropped = 0\<rparr>"

text \<open>
  Modelled from the spec: the test double of section 8, a transport that on
  \<^verbatim>\<open>publish\<close> delivers the messages \<open>ms\<close> and then echoes the reply \<open>r\<close> to the envelope,
  all in the same tick.
\<close>

definition echo :: "InboundMessage list \<Rightarrow> JsValue \<Rightarrow> Transport" where
  "echo ms r envelope = (PublishOk, ms @ [Reply (envelope_id envelope) (Ok r)])"

section \<open>Properties of the data model\<close>

subsection \<open>Reading properties of objects\<close>

lemma map_of_optional:
  "map_of (optional k f v) k' = (if k' = k then map_option f v else None)"
  by (cases v) auto

lemma map_of_optional_append:
  "map_of (optional k f v @ ps) k' =
     (if k' = k \<and> v \<noteq> None then map_option f v else map_of ps k')"
  by (cases v) auto

lemmas obj_simps = obj_def map_of_optional map_of_optional_append



subsection \<open>The enumerations\<close>

lemma UNIV_ProgressStatus: "(UNIV :: ProgressStatus set) = {complete', working, error}"
  using ProgressStatus.exhaust by auto

lemma UNIV_LocationName: "(UNIV :: LocationName set) = {position, scaled_encoders, raw_encoders}"
  using LocationName.exhaust by auto

lemma ProgressStatus_js_cases:
  "ProgressStatus_js s \<in> {JString ''complete'', JString ''working'', JString ''error''}"
  by (cases s) simp_all

subsection \<open>The claims about the data model\<close>

text \<open>
  \<^bold>\<open>C7\<close>. Every record of the jobs table is one of exactly two variants: the percent
  variant, whose \<^verbatim>\<open>unit\<close> is \<^verbatim>\<open>"percent"\<close> and which holds a numeric \<^verbatim>\<open>percent\<close> and no
  \<^verbatim>\<open>bytes\<close>, or the bytes variant, whose \<^verbatim>\<open>unit\<close> is \<^verbatim>\<open>"bytes"\<close> and which holds a numeric
  \<^verbatim>\<open>bytes\<close> and no \<^verbatim>\<open>percent\<close>; never both. Its \<^verbatim>\<open>status\<close> is one of \<^verbatim>\<open>"complete"\<close>,
  \<^verbatim>\<open>"working"\<close> and \<^verbatim>\<open>"error"\<close>, and these three are all the statuses there are.
\<close>

theorem job_progress_tagged_union:
  "((\<exists>p. j = Percentage p \<and>
         property (JobProgress_js j) ''unit'' = Some (JString ''percent'') \<and>
         property (JobProgress_js j) ''percent'' = Some (JNumber (percent p)) \<and>
         property (JobProgress_js j) ''bytes'' = None) \<noteq>
    (\<exists>b. j = Bytes b \<and>
         property (JobProgress_js j) ''unit'' = Some (JString ''bytes'') \<and>
         property (JobProgress_js j) ''bytes'' = Some (JNumber (bytes b)) \<and>
         property (JobProgress_js j) ''percent'' = None)) \<and>
   property (JobProgress_js j) ''status'' \<in>
     {Some (JString ''complete''), Some (JString ''working''), Some (JString ''error'')} \<and>
   (UNIV :: ProgressStatus set) = {complete', working, error} \<and>
   card (UNIV :: ProgressStatus set) = 3"
proof -
  have c: "card (UNIV :: ProgressStatus set) = 3"
    by (simp add: UNIV_ProgressStatus)
  show ?thesis
  proof (cases j)
    case (Percentage p)
    then show ?thesis
      using ProgressStatus_js_cases [of "PercentageProgress.status p"]
      by (auto simp: obj_def UNIV_ProgressStatus c)
  next
    case (Bytes b)
    then show ?thesis
      using ProgressStatus_js_cases [of "BytesProgress.status b"]
      by (auto simp: obj_def UNIV_ProgressStatus c)
  qed
qed

lemma required_obj: "required T (obj ps) k = (case map_of ps k of None \<Rightarrow> False | Some w \<Rightarrow> T w)"
  by (simp add: required_def obj_def)

lemma may_have_obj:
  "may_have T (obj ps) k = (case map_of ps k of None \<Rightarrow> True | Some w \<Rightarrow> is_undefined w \<or> T w)"
  by (simp add: may_have_def obj_def)

lemma FarmwareConfig_js_conforms: "is_FarmwareConfig (FarmwareConfig_js c)"
  by (simp add: is_FarmwareConfig_def FarmwareConfig_js_def required_obj)

lemma LegacyFarmwareManifestMeta_js_conforms:
  "is_LegacyFarmwareManifestMeta (LegacyFarmwareManifestMeta_js m)"
  by (simp add: is_LegacyFarmwareManifestMeta_def LegacyFarmwareManifestMeta_js_def required_obj)

lemma FarmwareManifest_js_conforms: "is_FarmwareManifest (FarmwareManifest_js c)"
proof -
  have "is_dictionary_of is_FarmwareConfig
      (JObject (map_option FarmwareConfig_js \<circ> FarmwareManifest.config c))"
    by (simp add: FarmwareConfig_js_conforms split: option.split)
  then show ?thesis
    by (simp add: is_FarmwareManifest_def FarmwareManifest_js_def required_obj)
qed

lemma LegacyFarmwareManifest_js_conforms: "is_LegacyFarmwareManifest (LegacyFarmwareManifest_js l)"
proof -
  have a: "is_array_of is_string (JArray (map JString (LegacyFarmwareManifest.args l)))"
    by (simp add: list_all_iff)
  have c: "is_array_of is_FarmwareConfig
      (JArray (map FarmwareConfig_js (LegacyFarmwareManifest.config l)))"
    by (simp add: list_all_iff FarmwareConfig_js_conforms)
  show ?thesis
    unfolding is_LegacyFarmwareManifest_def LegacyFarmwareManifest_js_def
    by (intro conjI;
        simp add: required_obj may_have_obj map_of_optional_append a c
          LegacyFarmwareManifestMeta_js_conforms split: option.split
          del: map_of_append is_array_of.simps)
qed

lemma manifest_shapes_exclude: "\<not> (is_FarmwareManifest v \<and> is_LegacyFarmwareManifest v)"
proof
  assume both: "is_FarmwareManifest v \<and> is_LegacyFarmwareManifest v"
  then have s: "required is_string v ''args''"
    and a: "required (is_array_of is_string) v ''args''"
    by (simp_all add: is_FarmwareManifest_def is_LegacyFarmwareManifest_def)
  from s obtain w where w: "property v ''args'' = Some w" "is_string w"
    by (auto simp add: required_def split: option.splits)
  with a have "is_array_of is_string w"
    by (simp add: required_def)
  with w(2) show False
    by (cases w) simp_all
qed

text \<open>
  \<^bold>\<open>C6\<close>, as the claim states it, fails on the source: a legacy manifest that also carries
  \<^verbatim>\<open>farmware_manifest_version\<close> is of type \<^verbatim>\<open>LegacyFarmwareManifest\<close>, so it is a manifest
  of the union; it is not of the current shape, and yet the field is present.
\<close>

theorem manifest_version_field_counterexample:
  "is_LegacyFarmwareManifest
     (obj [(''farmware_manifest_version'', JString ''2.0''),
           (''executable'', JString ''python''),
           (''uuid'', JString ''u1''),
           (''args'', JArray [JString ''main.py'']),
           (''name'', JString ''take-photo''),
           (''url'', JString ''manifest.json''),
           (''path'', JString ''farmware''),
           (''meta'',
            obj [(''min_os_version_major'', JString ''6''),
                 (''description'', JString ''photo''),
                 (''language'', JString ''python''),
                 (''version'', JString ''1.0''),
                 (''author'', JString ''farmbot''),
                 (''zip'', JString ''src.zip'')]),
           (''config'', JArray [])]) \<and>
   \<not> is_FarmwareManifest
     (obj [(''farmware_manifest_version'', JString ''2.0''),
           (''executable'', JString ''python''),
           (''uuid'', JString ''u1''),
           (''args'', JArray [JString ''main.py'']),
           (''name'', JString ''take-photo''),
           (''url'', JString ''manifest.json''),
           (''path'', JString ''farmware''),
           (''meta'',
            obj [(''min_os_version_major'', JString ''6''),
                 (''description'', JString ''photo''),
                 (''language'', JString ''python''),
                 (''version'', JString ''1.0''),
                 (''author'', JString ''farmbot''),
                 (''zip'', JString ''src.zip'')]),
           (''config'', JArray [])]) \<and>
   property
     (obj [(''farmware_manifest_version'', JString ''2.0''),
           (''executable'', JString ''python''),
           (''uuid'', JString ''u1''),
           (''args'', JArray [JString ''main.py'']),
           (''name'', JString ''take-photo''),
           (''url'', JString ''manifest.json''),
           (''path'', JString ''farmware''),
           (''meta'',
            obj [(''min_os_version_major'', JString ''6''),
                 (''description'', JString ''photo''),
                 (''language'', JString ''python''),
                 (''version'', JString ''1.0''),
                 (''author'', JString ''farmbot''),
                 (''zip'', JString ''src.zip'')]),
           (''config'', JArray [])])
     ''farmware_manifest_version'' = Some (JString ''2.0'')"
  by (simp add: is_LegacyFarmwareManifest_def is_FarmwareManifest_def
      is_LegacyFarmwareManifestMeta_def required_def may_have_def obj_def)

text \<open>
  \<^bold>\<open>C6\<close>, amended. Every manifest of \<^verbatim>\<open>process_info.farmwares\<close> has exactly one of the two
  shapes: a value of the union is current or legacy and never both (\<^verbatim>\<open>args\<close> is a string
  in one and an array in the other). Every current manifest carries
  \<^verbatim>\<open>farmware_manifest_version\<close>, so a manifest in which the field is absent is legacy.
  The presence of the field alone does not make a manifest current, since a legacy manifest
  may carry it as an extra property; it does tell the shapes apart among the manifests
  that have exactly their declared properties, where it is present in the current shape
  and absent in the legacy shape.
\<close>

theorem manifest_shape_and_version_field:
  "(is_Manifest v \<longrightarrow> is_FarmwareManifest v \<noteq> is_LegacyFarmwareManifest v) \<and>
   (is_FarmwareManifest v \<longrightarrow> required is_string v ''farmware_manifest_version'') \<and>
   (is_Manifest v \<and> property v ''farmware_manifest_version'' = None \<longrightarrow>
      is_LegacyFarmwareManifest v) \<and>
   is_Manifest (Manifest_js m) \<and>
   (is_FarmwareManifest (Manifest_js m) \<longleftrightarrow> (\<exists>c. m = Current c)) \<and>
   (is_LegacyFarmwareManifest (Manifest_js m) \<longleftrightarrow> (\<exists>l. m = Legacy l)) \<and>
   (property (Manifest_js m) ''farmware_manifest_version'' \<noteq> None \<longleftrightarrow> (\<exists>c. m = Current c)) \<and>
   (property (Manifest_js m) ''farmware_manifest_version'' = None \<longleftrightarrow> (\<exists>l. m = Legacy l))"
proof -
  have one: "is_Manifest v \<longrightarrow> is_FarmwareManifest v \<noteq> is_LegacyFarmwareManifest v"
    using manifest_shapes_exclude [of v] by (auto simp add: is_Manifest_def)
  have has: "is_FarmwareManifest v \<longrightarrow> required is_string v ''farmware_manifest_version''"
    by (simp add: is_FarmwareManifest_def)
  have none: "is_Manifest v \<and> property v ''farmware_manifest_version'' = None \<longrightarrow>
      is_LegacyFarmwareManifest v"
    by (auto simp add: is_Manifest_def is_FarmwareManifest_def required_def)
  have exact:
    "is_Manifest (Manifest_js m) \<and>
     (is_FarmwareManifest (Manifest_js m) \<longleftrightarrow> (\<exists>c. m = Current c)) \<and>
     (is_LegacyFarmwareManifest (Manifest_js m) \<longleftrightarrow> (\<exists>l. m = Legacy l))"
  proof (cases m)
    case (Current c)
    then show ?thesis
      using FarmwareManifest_js_conforms [of c] manifest_shapes_exclude [of "FarmwareManifest_js c"]
      by (simp add: is_Manifest_def)
  next
    case (Legacy l)
    then show ?thesis
      using LegacyFarmwareManifest_js_conforms [of l]
        manifest_shapes_exclude [of "LegacyFarmwareManifest_js l"]
      by (simp add: is_Manifest_def)
  qed
  have field:
    "(property (Manifest_js m) ''farmware_manifest_version'' \<noteq> None \<longleftrightarrow> (\<exists>c. m = Current c)) \<and>
     (property (Manifest_js m) ''farmware_manifest_version'' = None \<longleftrightarrow> (\<exists>l. m = Legacy l))"
    by (cases m)
      (simp_all add: FarmwareManifest_js_def LegacyFarmwareManifest_js_def obj_simps
        del: map_of_append)
  from one has none exact field show ?thesis
    by blast
qed

text \<open>
  A current manifest, which carries the field, and a legacy manifest without it.
\<close>

theorem manifest_shape_and_version_field_witness:
  "is_Manifest
     (obj [(''farmware_manifest_version'', JString ''2.0''),
           (''package'', JString ''take-photo''),
           (''package_version'', JString ''1.0''),
           (''description'', JString ''photo''),
           (''author'', JString ''farmbot''),
           (''language'', JString ''python''),
           (''executable'', JString ''python''),
           (''args'', JString ''main.py''),
           (''config'', obj []),
           (''farmbot_os_version_requirement'', JString ''>=8.0.0''),
           (''farmware_tools_version_requirement'', JString ''>=0.0.0''),
           (''url'', JString ''manifest.json''),
           (''zip'', JString ''src.zip'')]) \<and>
   is_FarmwareManifest
     (obj [(''farmware_manifest_version'', JString ''2.0''),
           (''package'', JString ''take-photo''),
           (''package_version'', JString ''1.0''),
           (''description'', JString ''photo''),
           (''author'', JString ''farmbot''),
           (''language'', JString ''python''),
           (''executable'', JString ''python''),
           (''args'', JString ''main.py''),
           (''config'', obj []),
           (''farmbot_os_version_requirement'', JString ''>=8.0.0''),
           (''farmware_tools_version_requirement'', JString ''>=0.0.0''),
           (''url'', JString ''manifest.json''),
           (''zip'', JString ''src.zip'')]) \<and>
   \<not> is_LegacyFarmwareManifest
     (obj [(''farmware_manifest_version'', JString ''2.0''),
           (''package'', JString ''take-photo''),
           (''package_version'', JString ''1.0''),
           (''description'', JString ''photo''),
           (''author'', JString ''farmbot''),
           (''language'', JString ''python''),
           (''executable'', JString ''python''),
           (''args'', JString ''main.py''),
           (''config'', obj []),
           (''farmbot_os_version_requirement'', JString ''>=8.0.0''),
           (''farmware_tools_version_requirement'', JString ''>=0.0.0''),
           (''url'', JString ''manifest.json''),
           (''zip'', JString ''src.zip'')]) \<and>
   required is_string
     (obj [(''farmware_manifest_version'', JString ''2.0''),
           (''package'', JString ''take-photo''),
           (''package_version'', JString ''1.0''),
           (''description'', JString ''photo''),
           (''author'', JString ''farmbot''),
           (''language'', JString ''python''),
           (''executable'', JString ''python''),
           (''args'', JString ''main.py''),
           (''config'', obj []),
           (''farmbot_os_version_requirement'', JString ''>=8.0.0''),
           (''farmware_tools_version_requirement'', JString ''>=0.0.0''),
           (''url'', JString ''manifest.json''),
           (''zip'', JString ''src.zip'')])
     ''farmware_manifest_version'' \<and>
   is_Manifest
     (obj [(''executable'', JString ''python''),
           (''uuid'', JString ''u1''),
           (''args'', JArray [JString ''main.py'']),
           (''name'', JString ''take-photo''),
           (''url'', JString ''manifest.json''),
           (''path'', JString ''farmware''),
           (''meta'',
            obj [(''min_os_version_major'', JString ''6''),
                 (''description'', JString ''photo''),
                 (''language'', JString ''python''),
                 (''version'', JString ''1.0''),
                 (''author'', JString ''farmbot''),
                 (''zip'', JString ''src.zip'')]),
           (''config'', JArray [])]) \<and>
   property
     (obj [(''executable'', JString ''python''),
           (''uuid'', JString ''u1''),
           (''args'', JArray [JString ''main.py'']),
           (''name'', JString ''take-photo''),
           (''url'', JString ''manifest.json''),
           (''path'', JString ''farmware''),
           (''meta'',
            obj [(''min_os_version_major'', JString ''6''),
                 (''description'', JString ''photo''),
                 (''language'', JString ''python''),
                 (''version'', JString ''1.0''),
                 (''author'', JString ''farmbot''),
                 (''zip'', JString ''src.zip'')]),
           (''config'', JArray [])])
     ''farmware_manifest_version'' = None \<and>
   is_LegacyFarmwareManifest
     (obj [(''executable'', JString ''python''),
           (''uuid'', JString ''u1''),
           (''args'', JArray [JString ''main.py'']),
           (''name'', JString ''take-photo''),
           (''url'', JString ''manifest.json''),
           (''path'', JString ''farmware''),
           (''meta'',
            obj [(''min_os_version_major'', JString ''6''),
                 (''description'', JString ''photo''),
                 (''language'', JString ''python''),
                 (''version'', JString ''1.0''),
                 (''author'', JString ''farmbot''),
                 (''zip'', JString ''src.zip'')]),
           (''config'', JArray [])]) \<and>
   \<not> is_FarmwareManifest
     (obj [(''executable'', JString ''python''),
           (''uuid'', JString ''u1''),
           (''args'', JArray [JString ''main.py'']),
           (''name'', JString ''take-photo''),
           (''url'', JString ''manifest.json''),
           (''path'', JString ''farmware''),
           (''meta'',
            obj [(''min_os_version_major'', JString ''6''),
                 (''description'', JString ''photo''),
                 (''language'', JString ''python''),
                 (''version'', JString ''1.0''),
                 (''author'', JString ''farmbot''),
                 (''zip'', JString ''src.zip'')]),
           (''config'', JArray [])])"
proof -
  have cur: "is_FarmwareManifest
     (obj [(''farmware_manifest_version'', JString ''2.0''),
           (''package'', JString ''take-photo''),
           (''package_version'', JString ''1.0''),
           (''description'', JString ''photo''),
           (''author'', JString ''farmbot''),
           (''language'', JString ''python''),
           (''executable'', JString ''python''),
           (''args'', JString ''main.py''),
           (''config'', obj []),
           (''farmbot_os_version_requirement'', JString ''>=8.0.0''),
           (''farmware_tools_version_requirement'', JString ''>=0.0.0''),
           (''url'', JString ''manifest.json''),
           (''zip'', JString ''src.zip'')])"
    by (simp add: is_FarmwareManifest_def required_def obj_def)
  have leg: "is_LegacyFarmwareManifest
     (obj [(''executable'', JString ''python''),
           (''uuid'', JString ''u1''),
           (''args'', JArray [JString ''main.py'']),
           (''name'', JString ''take-photo''),
           (''url'', JString ''manifest.json''),
           (''path'', JString ''farmware''),
           (''meta'',
            obj [(''min_os_version_major'', JString ''6''),
                 (''description'', JString ''photo''),
                 (''language'', JString ''python''),
                 (''version'', JString ''1.0''),
                 (''author'', JString ''farmbot''),
                 (''zip'', JString ''src.zip'')]),
           (''config'', JArray [])])"
    by (simp add: is_LegacyFarmwareManifest_def is_LegacyFarmwareManifestMeta_def
        required_def may_have_def obj_def)
  have absent: "property
     (obj [(''executable'', JString ''python''),
           (''uuid'', JString ''u1''),
           (''args'', JArray [JString ''main.py'']),
           (''name'', JString ''take-photo''),
           (''url'', JString ''manifest.json''),
           (''path'', JString ''farmware''),
           (''meta'',
            obj [(''min_os_version_major'', JString ''6''),
                 (''description'', JString ''photo''),
                 (''language'', JString ''python''),
                 (''version'', JString ''1.0''),
                 (''author'', JString ''farmbot''),
                 (''zip'', JString ''src.zip'')]),
           (''config'', JArray [])])
     ''farmware_manifest_version'' = None"
    by (simp add: obj_def)
  show ?thesis
    using cur leg absent manifest_shapes_exclude
      manifest_shape_and_version_field
        [of "obj [(''farmware_manifest_version'', JString ''2.0''),
           (''package'', JString ''take-photo''),
           (''package_version'', JString ''1.0''),
           (''description'', JString ''photo''),
           (''author'', JString ''farmbot''),
           (''language'', JString ''python''),
           (''executable'', JString ''python''),
           (''args'', JString ''main.py''),
           (''config'', obj []),
           (''farmbot_os_version_requirement'', JString ''>=8.0.0''),
           (''farmware_tools_version_requirement'', JString ''>=0.0.0''),
           (''url'', JString ''manifest.json''),
           (''zip'', JString ''src.zip'')]"]
      manifest_shape_and_version_field
        [of "obj [(''executable'', JString ''python''),
           (''uuid'', JString ''u1''),
           (''args'', JArray [JString ''main.py'']),
           (''name'', JString ''take-photo''),
           (''url'', JString ''manifest.json''),
           (''path'', JString ''farmware''),
           (''meta'',
            obj [(''min_os_version_major'', JString ''6''),
                 (''description'', JString ''photo''),
                 (''language'', JString ''python''),
                 (''version'', JString ''1.0''),
                 (''author'', JString ''farmbot''),
                 (''zip'', JString ''src.zip'')]),
           (''config'', JArray [])]"]
    by (simp add: is_Manifest_def)
qed

text \<open>
  \<^bold>\<open>C10\<close>. In every legacy manifest \<^verbatim>\<open>args\<close> is an array of strings, in every current
  manifest it is one string; the two never hold the same value, so a reader of
  \<^verbatim>\<open>args\<close> has to branch on the shape.
\<close>

theorem manifest_args_representation:
  "property (Manifest_js (Legacy l)) ''args'' =
     Some (JArray (map JString (LegacyFarmwareManifest.args l))) \<and>
   property (Manifest_js (Current c)) ''args'' = Some (JString (FarmwareManifest.args c)) \<and>
   property (Manifest_js (Legacy l)) ''args'' \<noteq> property (Manifest_js (Current c')) ''args''"
  by (simp add: FarmwareManifest_js_def LegacyFarmwareManifest_js_def obj_simps
      del: map_of_append)

text \<open>
  \<^bold>\<open>C9\<close>. In every \<^verbatim>\<open>informational_settings\<close> the properties \<^verbatim>\<open>busy\<close>,
  \<^verbatim>\<open>locked\<close>, \<^verbatim>\<open>commit\<close>, \<^verbatim>\<open>firmware_commit\<close>, \<^verbatim>\<open>target\<close>, \<^verbatim>\<open>env\<close> and \<^verbatim>\<open>node_name\<close>
  are present. Each of the other properties (the metrics, the version strings, the
  sync status, the two update flags) is present exactly when its value is known, and
  the settings in which none of them is known is an object with the seven required
  keys and no other.
\<close>

theorem informational_settings_required_fields:
  "property (InformationalSettings_js i) ''busy'' = Some (JBoolean (busy i)) \<and>
   property (InformationalSettings_js i) ''locked'' = Some (JBoolean (locked i)) \<and>
   property (InformationalSettings_js i) ''commit'' = Some (JString (commit i)) \<and>
   property (InformationalSettings_js i) ''firmware_commit'' = Some (JString (firmware_commit i)) \<and>
   property (InformationalSettings_js i) ''target'' = Some (JString (target i)) \<and>
   property (InformationalSettings_js i) ''env'' = Some (JString (env i)) \<and>
   property (InformationalSettings_js i) ''node_name'' = Some (JString (node_name i)) \<and>
   property (InformationalSettings_js i) ''uptime'' = map_option JNumber (uptime i) \<and>
   property (InformationalSettings_js i) ''disk_usage'' = map_option JNumber (disk_usage i) \<and>
   property (InformationalSettings_js i) ''memory_usage'' = map_option JNumber (memory_usage i) \<and>
   property (InformationalSettings_js i) ''soc_temp'' = map_option JNumber (soc_temp i) \<and>
   property (InformationalSettings_js i) ''wifi_level'' = map_option JNumber (wifi_level i) \<and>
   property (InformationalSettings_js i) ''controller_version'' =
     map_option JString (controller_version i) \<and>
   property (InformationalSettings_js i) ''firmware_version'' =
     map_option JString (firmware_version i) \<and>
   property (InformationalSettings_js i) ''throttled'' = map_option JString (throttled i) \<and>
   property (InformationalSettings_js i) ''private_ip'' = map_option JString (private_ip i) \<and>
   property (InformationalSettings_js i) ''sync_status'' =
     map_option SyncStatus_js (sync_status i) \<and>
   property (InformationalSettings_js i) ''currently_on_beta'' =
     map_option JBoolean (currently_on_beta i) \<and>
   property (InformationalSettings_js i) ''update_available'' =
     map_option JBoolean (update_available i) \<and>
   (property (InformationalSettings_js
       (i\<lparr>uptime := None, disk_usage := None, memory_usage := None, soc_temp := None,
          wifi_level := None, controller_version := None, firmware_version := None,
          throttled := None, private_ip := None, sync_status := None,
          currently_on_beta := None, update_available := None\<rparr>)) k \<noteq> None) =
     (k \<in> {''busy'', ''locked'', ''commit'', ''firmware_commit'', ''target'', ''env'',
            ''node_name''})"
  by (intro conjI; simp add: InformationalSettings_js_def obj_simps del: map_of_append)

text \<open>
  \<^bold>\<open>C8\<close>. The location data of every state tree has exactly the three keys
  \<^verbatim>\<open>position\<close>, \<^verbatim>\<open>scaled_encoders\<close> and \<^verbatim>\<open>raw_encoders\<close>, and \<open>LocationName\<close> has no fourth
  value. Each of the three holds a record with exactly the keys \<^verbatim>\<open>x\<close>, \<^verbatim>\<open>y\<close> and
  \<^verbatim>\<open>z\<close>, and each axis on its own holds a number or \<^verbatim>\<open>undefined\<close>.
\<close>

theorem location_data_coordinate_systems:
  "(property (LocationData_js (location_data S)) k \<noteq> None) =
     (k \<in> {''position'', ''scaled_encoders'', ''raw_encoders''}) \<and>
   property (LocationData_js (location_data S)) ''position'' =
     Some (Xyz_js (location_data S position)) \<and>
   property (LocationData_js (location_data S)) ''scaled_encoders'' =
     Some (Xyz_js (location_data S scaled_encoders)) \<and>
   property (LocationData_js (location_data S)) ''raw_encoders'' =
     Some (Xyz_js (location_data S raw_encoders)) \<and>
   (UNIV :: LocationName set) = {position, scaled_encoders, raw_encoders} \<and>
   card (UNIV :: LocationName set) = 3 \<and>
   (property (Xyz_js r) a \<noteq> None) = (a \<in> {''x'', ''y'', ''z''}) \<and>
   property (Xyz_js (r(x := None))) ''x'' = Some JUndefined \<and>
   property (Xyz_js (r(y := None))) ''y'' = Some JUndefined \<and>
   property (Xyz_js (r(z := None))) ''z'' = Some JUndefined \<and>
   property (Xyz_js (r(x \<mapsto> n))) ''x'' = Some (JNumber n) \<and>
   property (Xyz_js (r(y \<mapsto> n))) ''y'' = Some (JNumber n) \<and>
   property (Xyz_js (r(z \<mapsto> n))) ''z'' = Some (JNumber n)"
proof -
  have c: "card (UNIV :: LocationName set) = 3"
    by (simp add: UNIV_LocationName)
  show ?thesis
    by (intro conjI; simp add: LocationData_js_def Xyz_js_def obj_def UNIV_LocationName c)
qed

text \<open>
  \<^bold>\<open>C5\<close>. In each sparse mapping of the state tree (microcontroller parameters, pin
  table, environment variables, jobs, alerts, user configuration) every key may be
  missing: the tree with the entry removed is a state tree, and the entry reads as
  unknown there. It is a different tree from every tree in which the entry has a value,
  zero and \<open>False\<close> included: the model has no default that stands for a missing
  entry.
\<close>

theorem state_tree_mappings_sparse:
  "mcu_params (S\<lparr>mcu_params := (mcu_params S)(p := None)\<rparr>) p = None \<and>
   S\<lparr>mcu_params := (mcu_params S)(p := None)\<rparr> \<noteq> S\<lparr>mcu_params := (mcu_params S)(p \<mapsto> n)\<rparr> \<and>
   pins (S\<lparr>pins := (pins S)(k := None)\<rparr>) k = None \<and>
   S\<lparr>pins := (pins S)(k := None)\<rparr> \<noteq> S\<lparr>pins := (pins S)(k \<mapsto> q)\<rparr> \<and>
   user_env (S\<lparr>user_env := (user_env S)(k := None)\<rparr>) k = None \<and>
   S\<lparr>user_env := (user_env S)(k := None)\<rparr> \<noteq> S\<lparr>user_env := (user_env S)(k \<mapsto> u)\<rparr> \<and>
   jobs (S\<lparr>jobs := (jobs S)(k := None)\<rparr>) k = None \<and>
   S\<lparr>jobs := (jobs S)(k := None)\<rparr> \<noteq> S\<lparr>jobs := (jobs S)(k \<mapsto> j)\<rparr> \<and>
   enigmas (S\<lparr>enigmas := None\<rparr>) = None \<and>
   S\<lparr>enigmas := None\<rparr> \<noteq> S\<lparr>enigmas := Some e\<rparr> \<and>
   S\<lparr>enigmas := Some (e(k := None))\<rparr> \<noteq> S\<lparr>enigmas := Some (e(k \<mapsto> g))\<rparr> \<and>
   arduino_debug_messages (c\<lparr>arduino_debug_messages := None\<rparr>) = None \<and>
   c\<lparr>arduino_debug_messages := None\<rparr> \<noteq> c\<lparr>arduino_debug_messages := Some n\<rparr> \<and>
   auto_sync (c\<lparr>auto_sync := None\<rparr>) = None \<and>
   c\<lparr>auto_sync := None\<rparr> \<noteq> c\<lparr>auto_sync := Some b\<rparr> \<and>
   beta_opt_in (c\<lparr>beta_opt_in := None\<rparr>) = None \<and>
   c\<lparr>beta_opt_in := None\<rparr> \<noteq> c\<lparr>beta_opt_in := Some b\<rparr> \<and>
   disable_factory_reset (c\<lparr>disable_factory_reset := None\<rparr>) = None \<and>
   c\<lparr>disable_factory_reset := None\<rparr> \<noteq> c\<lparr>disable_factory_reset := Some b\<rparr> \<and>
   firmware_hardware (c\<lparr>firmware_hardware := None\<rparr>) = None \<and>
   c\<lparr>firmware_hardware := None\<rparr> \<noteq> c\<lparr>firmware_hardware := Some h\<rparr> \<and>
   firmware_input_log (c\<lparr>firmware_input_log := None\<rparr>) = None \<and>
   c\<lparr>firmware_input_log := None\<rparr> \<noteq> c\<lparr>firmware_input_log := Some b\<rparr> \<and>
   firmware_output_log (c\<lparr>firmware_output_log := None\<rparr>) = None \<and>
   c\<lparr>firmware_output_log := None\<rparr> \<noteq> c\<lparr>firmware_output_log := Some b\<rparr> \<and>
   fw_auto_update (c\<lparr>fw_auto_update := None\<rparr>) = None \<and>
   c\<lparr>fw_auto_update := None\<rparr> \<noteq> c\<lparr>fw_auto_update := Some n\<rparr> \<and>
   network_not_found_timer (c\<lparr>network_not_found_timer := None\<rparr>) = None \<and>
   c\<lparr>network_not_found_timer := None\<rparr> \<noteq> c\<lparr>network_not_found_timer := Some n\<rparr> \<and>
   os_auto_update (c\<lparr>os_auto_update := None\<rparr>) = None \<and>
   c\<lparr>os_auto_update := None\<rparr> \<noteq> c\<lparr>os_auto_update := Some n\<rparr> \<and>
   sequence_body_log (c\<lparr>sequence_body_log := None\<rparr>) = None \<and>
   c\<lparr>sequence_body_log := None\<rparr> \<noteq> c\<lparr>sequence_body_log := Some b\<rparr> \<and>
   sequence_complete_log (c\<lparr>sequence_complete_log := None\<rparr>) = None \<and>
   c\<lparr>sequence_complete_log := None\<rparr> \<noteq> c\<lparr>sequence_complete_log := Some b\<rparr> \<and>
   sequence_init_log (c\<lparr>sequence_init_log := None\<rparr>) = None \<and>
   c\<lparr>sequence_init_log := None\<rparr> \<noteq> c\<lparr>sequence_init_log := Some b\<rparr>"
  by (intro conjI; cases S; cases c; simp; metis fun_upd_same option.distinct(1))

section \<open>Properties of the StateTree Store\<close>

lemma child_simps [simp]:
  "child JUndefined k = JUndefined"
  "child (JNumber n) k = JUndefined"
  "child (JBoolean b) k = JUndefined"
  "child (JString t) k = JUndefined"
  "child (JArray vs) k = JUndefined"
  "child (JObject m) k = (case m k of None \<Rightarrow> JUndefined | Some w \<Rightarrow> w)"
  by (simp_all add: child_def)

lemma is_undefined_iff: "is_undefined v \<longleftrightarrow> v = JUndefined"
  by (cases v) simp_all

lemma merge_object:
  "merge S (JObject new) =
     JObject (\<lambda>k. case new k of
                    None \<Rightarrow> property S k
                  | Some pv \<Rightarrow> Some (merge (child S k) pv))"
  by (simp add: merge_def fun_eq_iff split: option.split)

lemma merge_undefined: "merge S JUndefined = S"
  by (simp add: merge_def)

lemma merge_leaf:
  "\<not> is_mapping P \<Longrightarrow> \<not> is_undefined P \<Longrightarrow> merge S P = (if is_mapping S then S else P)"
  by (cases P) (simp_all add: merge_def overwrite_def)


lemma child_merge:
  "is_mapping P \<Longrightarrow> child (merge S P) k = merge (child S k) (child P k)"
proof (cases P)
  case (JObject new)
  show ?thesis
  proof (cases "new k")
    case None
    then show ?thesis
      by (cases S) (simp_all add: JObject merge_object merge_undefined)
  next
    case (Some pv)
    then show ?thesis
      by (simp add: JObject merge_object)
  qed
qed simp_all

lemma field_at_undefined: "field_at JUndefined route = JUndefined"
  by (induction route) simp_all

lemma field_at_not_mapping: "\<not> is_mapping v \<Longrightarrow> field_at v (k # ks) = JUndefined"
  by (cases v) (simp_all add: field_at_undefined)

text \<open>A field absent from the update reads after the merge as before.\<close>

lemma merge_absent:
  "is_undefined (field_at P route) \<Longrightarrow> field_at (merge S P) route = field_at S route"
proof (induction route arbitrary: S P)
  case Nil
  then show ?case by (simp add: is_undefined_iff merge_undefined)
next
  case (Cons k ks)
  show ?case
  proof (cases "is_mapping P")
    case True
    from Cons.prems have a: "is_undefined (field_at (child P k) ks)" by simp
    show ?thesis
      using Cons.IH [OF a, of "child S k"] by (simp add: child_merge [OF True])
  next
    case False
    show ?thesis
    proof (cases "is_undefined P")
      case True
      then show ?thesis by (simp add: is_undefined_iff merge_undefined)
    next
      case u: False
      show ?thesis
      proof (cases "is_mapping S")
        case True
        then show ?thesis by (simp add: merge_leaf [OF False u] del: field_at.simps)
      next
        case s: False
        have "merge S P = P" by (simp add: merge_leaf [OF False u] s)
        then show ?thesis
          by (simp add: field_at_not_mapping [OF False] field_at_not_mapping [OF s]
              del: field_at.simps)
      qed
    qed
  qed
qed



lemma merge_twice: "merge (merge S P) P = merge S P"
proof (induction P arbitrary: S)
  case (JObject new)
  have inner: "merge (merge T pv) pv = merge T pv" if "new k = Some pv" for k pv T
  proof -
    have "Some pv \<in> range new" using that by (metis rangeI)
    then show ?thesis using JObject [of "Some pv" pv T] by simp
  qed
  show ?case
    unfolding merge_object
    by (rule arg_cong [where f = JObject], rule ext)
      (simp add: inner split: option.split)
qed (simp_all add: merge_def overwrite_def)

text \<open>
  Two fields below a mapping entry, on the manifests of the source: a legacy manifest in
  the update that has no \<^verbatim>\<open>farmware_tools_version\<close> leaves the stored one, and a current
  manifest in the update leaves every key of the stored \<^verbatim>\<open>config\<close> that its own
  \<^verbatim>\<open>config\<close> does not have.
\<close>

lemma merge_keeps_farmware_tools_version:
  assumes "farmware_tools_version l' = None"
  shows "field_at (merge (LegacyFarmwareManifest_js l) (LegacyFarmwareManifest_js l'))
           [''farmware_tools_version''] =
         field_at (LegacyFarmwareManifest_js l) [''farmware_tools_version'']"
proof (rule merge_absent)
  show "is_undefined (field_at (LegacyFarmwareManifest_js l') [''farmware_tools_version''])"
    using assms by (simp add: LegacyFarmwareManifest_js_def obj_def)
qed

lemma merge_keeps_config_keys:
  assumes "FarmwareManifest.config c' k = None"
  shows "field_at (merge (FarmwareManifest_js c) (FarmwareManifest_js c')) [''config'', k] =
         field_at (FarmwareManifest_js c) [''config'', k]"
proof (rule merge_absent)
  show "is_undefined (field_at (FarmwareManifest_js c') [''config'', k])"
    using assms by (simp add: FarmwareManifest_js_def obj_def)
qed

text \<open>
  \<^bold>\<open>C2\<close>. Merging the same partial update twice in a row gives the tree that merging it
  once gives, for every state tree and every partial update: \<^verbatim>\<open>merge\<close> is idempotent. So
  is the Ingress Router on a delta that is delivered twice: the second delivery leaves
  the engine as the first left it.
\<close>

theorem merge_idempotent:
  "merge (merge S P) P = merge S P \<and>
   handle (Delta P) (handle (Delta P) E) = handle (Delta P) E"
  by (simp add: merge_twice)



section \<open>Properties of the Correlator and the Dispatcher\<close>

lemma settle_other:
  "j \<noteq> i \<Longrightarrow> commands (settle j out C) i = commands C i"
  "j \<noteq> i \<Longrightarrow> handles (settle j out C) i = handles C i"
  by (simp_all add: settle_def split: option.split)

lemma settle_pending:
  assumes "commands C i = Some pc" and "resolution pc = pending"
  shows "handles (settle i out C) = (handles C)(i := handles C i @ [out])"
    and "commands (settle i out C) = (commands C)(i := None)"
    and "ignored (settle i out C) = ignored C"
  using assms by (simp_all add: settle_def)

lemma settle_not_pending:
  assumes "\<not> (\<exists>pc. commands C i = Some pc \<and> resolution pc = pending)"
  shows "handles (settle i out C) = handles C"
    and "commands (settle i out C) = commands C"
    and "ignored (settle i out C) = ignored C @ [i]"
  using assms by (simp_all add: settle_def split: option.split)


lemma settle_leaves_none_pending:
  "\<not> (\<exists>pc. commands (settle i out C) i = Some pc \<and> resolution pc = pending)"
proof (cases "commands C i")
  case None
  then show ?thesis by (simp add: settle_def)
next
  case (Some pc)
  then show ?thesis by (cases "resolution pc = pending") (simp_all add: settle_def)
qed

lemma settle_settle:
  "handles (settle i out' (settle i out C)) = handles (settle i out C)"
  "commands (settle i out' (settle i out C)) = commands (settle i out C)"
  by (rule settle_not_pending(1) [OF settle_leaves_none_pending])
    (rule settle_not_pending(2) [OF settle_leaves_none_pending])


lemma register_pending:
  "commands (register i now t C) i =
     Some \<lparr>correlation_id = i, submitted_at = now, timeout_duration = t,
           resolution = pending, outcome = None\<rparr>"
  "handles (register i now t C) = handles C"
  by (simp_all add: register_def)

lemma settle_registered:
  "handles (settle i out (register i now t C)) i = handles C i @ [out]"
  "commands (settle i out (register i now t C)) i = None"
  by (simp_all add: settle_def register_def)

text \<open>
  \<^bold>\<open>C4\<close>. \<^verbatim>\<open>resolve\<close> and \<^verbatim>\<open>reject\<close> deliver to the handle of a pending command exactly
  once: the outcome is appended to what the handle has received and the command leaves
  the table. On an id that is unknown or already settled they are a no-op: no handle
  receives anything, the table is as before, and the call is logged as ignored. So a
  second call for the same id, in any of the four combinations, delivers nothing more;
  no handle other than that of the id is ever touched; and a command just registered
  receives exactly the one outcome.
\<close>

theorem settle_exactly_once:
  "((\<exists>pc. commands C i = Some pc \<and> resolution pc = pending) \<longrightarrow>
      handles (resolve i r C) i = handles C i @ [Result r] \<and>
      handles (reject i e C) i = handles C i @ [Failed e] \<and>
      commands (resolve i r C) i = None \<and>
      commands (reject i e C) i = None) \<and>
   (\<not> (\<exists>pc. commands C i = Some pc \<and> resolution pc = pending) \<longrightarrow>
      handles (resolve i r C) = handles C \<and>
      handles (reject i e C) = handles C \<and>
      commands (resolve i r C) = commands C \<and>
      commands (reject i e C) = commands C \<and>
      ignored (resolve i r C) = ignored C @ [i] \<and>
      ignored (reject i e C) = ignored C @ [i]) \<and>
   handles (resolve i r' (resolve i r C)) = handles (resolve i r C) \<and>
   handles (reject i e (resolve i r C)) = handles (resolve i r C) \<and>
   handles (resolve i r (reject i e C)) = handles (reject i e C) \<and>
   handles (reject i e' (reject i e C)) = handles (reject i e C) \<and>
   (j \<noteq> i \<longrightarrow>
      handles (resolve i r C) j = handles C j \<and> handles (reject i e C) j = handles C j) \<and>
   handles (resolve i r (register i now t C)) i = handles C i @ [Result r] \<and>
   handles (reject i e (register i now t C)) i = handles C i @ [Failed e]"
proof -
  have first:
    "handles (settle i out C) i = handles C i @ [out] \<and> commands (settle i out C) i = None"
    if "\<exists>pc. commands C i = Some pc \<and> resolution pc = pending" for out
  proof -
    from that obtain pc where pc: "commands C i = Some pc" "resolution pc = pending"
      by blast
    show ?thesis
      by (simp add: settle_pending(1) [OF pc] settle_pending(2) [OF pc])
  qed
  have noop:
    "handles (settle i out C) = handles C \<and> commands (settle i out C) = commands C \<and>
     ignored (settle i out C) = ignored C @ [i]"
    if "\<not> (\<exists>pc. commands C i = Some pc \<and> resolution pc = pending)" for out
    using settle_not_pending [OF that] by blast
  have second: "handles (settle i out' (settle i out C)) = handles (settle i out C)"
    for out out'
    by (rule settle_settle(1))
  have others: "handles (settle i out C) j = handles C j" if "j \<noteq> i" for out
    using that by (simp add: settle_other(2))
  show ?thesis
    unfolding resolve_def reject_def
    using first [of "Result r"] first [of "Failed e"] noop [of "Result r"]
      noop [of "Failed e"] second others [of "Result r"] others [of "Failed e"]
      settle_registered(1) [of i "Result r" now t C]
      settle_registered(1) [of i "Failed e" now t C]
    by blast
qed

theorem settle_exactly_once_witness:
  "(\<exists>pc. commands (register 7 0 None initial_correlator) 7 = Some pc \<and> resolution pc = pending) \<and>
   handles (resolve 7 (JString ''ok'') (register 7 0 None initial_correlator)) 7 =
     [Result (JString ''ok'')] \<and>
   handles (resolve 7 (JString ''again'')
       (resolve 7 (JString ''ok'') (register 7 0 None initial_correlator))) 7 =
     [Result (JString ''ok'')] \<and>
   \<not> (\<exists>pc. commands initial_correlator 7 = Some pc \<and> resolution pc = pending) \<and>
   handles (resolve 7 (JString ''ok'') initial_correlator) 7 = [] \<and>
   handles (reject 7 TimeoutError initial_correlator) 7 = [] \<and>
   (8::nat) \<noteq> 7 \<and>
   handles (resolve 7 (JString ''ok'') (register 7 0 None initial_correlator)) 8 = []"
proof -
  have p: "\<exists>pc. commands (register 7 0 None initial_correlator) 7 = Some pc \<and>
      resolution pc = pending"
    by (simp add: register_def)
  have n: "\<not> (\<exists>pc. commands initial_correlator 7 = Some pc \<and> resolution pc = pending)"
    by (simp add: initial_correlator_def)
  have h: "handles (register 7 0 None initial_correlator) = (\<lambda>i. [])"
    "handles initial_correlator = (\<lambda>i. [])"
    by (simp_all add: register_def initial_correlator_def)
  show ?thesis
    using p n
      settle_exactly_once
        [of "register 7 0 None initial_correlator" 7 "JString ''ok''" TimeoutError
          "JString ''again''" TimeoutError 8 0 None]
      settle_exactly_once
        [of initial_correlator 7 "JString ''ok''" TimeoutError "JString ''again''"
          TimeoutError 8 0 None]
    by (simp add: h)
qed

subsection \<open>Replies of the same tick\<close>

lemma handle_events: "events (handle m E) = events E"
  by (cases "(m, E)" rule: handle.cases) simp_all

lemma handle_all_Nil: "handle_all [] E = E"
  by (simp add: handle_all_def)

lemma handle_all_Cons: "handle_all (m # ms) E = handle_all ms (handle m E)"
  by (simp add: handle_all_def)

lemma handle_all_append: "handle_all (ms @ ms') E = handle_all ms' (handle_all ms E)"
  by (simp add: handle_all_def)

lemma handle_all_events: "events (handle_all ms E) = events E"
  by (induction ms arbitrary: E) (simp_all add: handle_all_Nil handle_all_Cons handle_events)

lemma handle_reply: "correlator (handle (Reply i st) E) = settle i (reply_outcome st) (correlator E)"
  by (cases st) (simp_all add: resolve_def reject_def)

lemma handle_not_reply: "reply_id m = None \<Longrightarrow> correlator (handle m E) = correlator E"
  by (cases "(m, E)" rule: handle.cases) simp_all

lemma handle_other:
  assumes "reply_id m \<noteq> Some i"
  shows "commands (correlator (handle m E)) i = commands (correlator E) i"
    and "handles (correlator (handle m E)) i = handles (correlator E) i"
proof -
  show "commands (correlator (handle m E)) i = commands (correlator E) i"
  proof (cases "reply_id m")
    case None
    then show ?thesis by (simp add: handle_not_reply)
  next
    case (Some j)
    then obtain st where m: "m = Reply j st" by (cases m) simp_all
    with assms have "j \<noteq> i" by simp
    then show ?thesis by (simp add: m handle_reply settle_other(1))
  qed
  show "handles (correlator (handle m E)) i = handles (correlator E) i"
  proof (cases "reply_id m")
    case None
    then show ?thesis by (simp add: handle_not_reply)
  next
    case (Some j)
    then obtain st where m: "m = Reply j st" by (cases m) simp_all
    with assms have "j \<noteq> i" by simp
    then show ?thesis by (simp add: m handle_reply settle_other(2))
  qed
qed

lemma handle_all_other:
  assumes "\<forall>m \<in> set ms. reply_id m \<noteq> Some i"
  shows "commands (correlator (handle_all ms E)) i = commands (correlator E) i \<and>
         handles (correlator (handle_all ms E)) i = handles (correlator E) i"
  using assms
proof (induction ms arbitrary: E)
  case Nil
  then show ?case by (simp add: handle_all_Nil)
next
  case (Cons m ms)
  then have m: "reply_id m \<noteq> Some i" and ms: "\<forall>m \<in> set ms. reply_id m \<noteq> Some i"
    by simp_all
  show ?case
    using Cons.IH [OF ms, of "handle m E"] handle_other [OF m, of E]
    by (simp add: handle_all_Cons)
qed

lemma handle_settled:
  assumes "commands (correlator E) i = None"
  shows "commands (correlator (handle m E)) i = None \<and>
         handles (correlator (handle m E)) i = handles (correlator E) i"
proof (cases "reply_id m = Some i")
  case False
  then show ?thesis using assms handle_other [of m i E] by simp
next
  case True
  then obtain st where m: "m = Reply i st" by (cases m) simp_all
  have n: "\<not> (\<exists>pc. commands (correlator E) i = Some pc \<and> resolution pc = pending)"
    using assms by simp
  show ?thesis
    using assms by (simp add: m handle_reply settle_not_pending(1,2) [OF n])
qed

lemma handle_all_settled:
  assumes "commands (correlator E) i = None"
  shows "commands (correlator (handle_all ms E)) i = None \<and>
         handles (correlator (handle_all ms E)) i = handles (correlator E) i"
  using assms
proof (induction ms arbitrary: E)
  case Nil
  then show ?case by (simp add: handle_all_Nil)
next
  case (Cons m ms)
  from handle_settled [OF Cons.prems, of m]
  have s: "commands (correlator (handle m E)) i = None"
    and h: "handles (correlator (handle m E)) i = handles (correlator E) i"
    by simp_all
  show ?case
    using Cons.IH [OF s] h by (simp add: handle_all_Cons)
qed

lemma handle_pending_reply:
  assumes "commands (correlator E) i = Some pc" and "resolution pc = pending"
  shows "commands (correlator (handle (Reply i st) E)) i = None \<and>
         handles (correlator (handle (Reply i st) E)) i =
           handles (correlator E) i @ [reply_outcome st]"
  by (simp add: handle_reply settle_pending(1,2) [OF assms])

lemma first_reply_is_delivered:
  assumes "commands (correlator E) i = Some pc" and "resolution pc = pending"
    and "\<forall>m \<in> set before. reply_id m \<noteq> Some i"
  shows "commands (correlator (handle_all (before @ Reply i st # after) E)) i = None \<and>
         handles (correlator (handle_all (before @ Reply i st # after) E)) i =
           handles (correlator E) i @ [reply_outcome st]"
proof -
  let ?E1 = "handle_all before E"
  let ?E2 = "handle (Reply i st) ?E1"
  have b: "commands (correlator ?E1) i = Some pc"
    "handles (correlator ?E1) i = handles (correlator E) i"
    using handle_all_other [OF assms(3), of E] assms(1) by simp_all
  have r: "commands (correlator ?E2) i = None"
    "handles (correlator ?E2) i = handles (correlator E) i @ [reply_outcome st]"
    using handle_pending_reply [OF b(1) assms(2), of st] b(2) by simp_all
  have a: "commands (correlator (handle_all after ?E2)) i = None"
    "handles (correlator (handle_all after ?E2)) i = handles (correlator ?E2) i"
    using handle_all_settled [OF r(1), of after] by simp_all
  show ?thesis
    using a r by (simp add: handle_all_append handle_all_Cons)
qed


text \<open>
  \<^bold>\<open>C3\<close>. Every \<^verbatim>\<open>send\<close> registers its pending command before it hands the envelope to
  the transport: the trace of the call is the registration followed by the publication,
  under the fresh id the call returns. So a reply the transport delivers in the same
  tick is never dropped: whatever else arrives with it, the first reply that bears the
  id finds the pending command, the handle of the call receives exactly its outcome,
  and the command leaves the table.
\<close>

theorem send_registers_before_publish:
  assumes "send publish now cmd opts E = (i, E')"
  shows "i = next_id E \<and>
         events E' = events E @ [Registered i, Published i] \<and>
         (\<forall>st before after.
            publish \<lparr>envelope_id = i, command = cmd\<rparr> =
              (PublishOk, before @ Reply i st # after) \<and>
            (\<forall>m \<in> set before. reply_id m \<noteq> Some i) \<longrightarrow>
              handles (correlator E') i = handles (correlator E) i @ [reply_outcome st] \<and>
              commands (correlator E') i = None)"
proof -
  define E1 where
    "E1 = E\<lparr>correlator := register (next_id E) now (timeout opts) (correlator E),
             next_id := Suc (next_id E),
             events := events E @ [Registered (next_id E)]\<rparr>"
  define E1p where "E1p = E1\<lparr>events := events E1 @ [Published (next_id E)]\<rparr>"
  obtain result inbound where
    p: "publish \<lparr>envelope_id = next_id E, command = cmd\<rparr> = (result, inbound)"
    by (cases "publish \<lparr>envelope_id = next_id E, command = cmd\<rparr>")
  define E2 where "E2 = handle_all inbound E1p"
  have unfolded:
    "send publish now cmd opts E =
       (next_id E,
        case result of
          PublishFailed \<Rightarrow>
            E2\<lparr>correlator := reject (next_id E) TransportError (correlator E2)\<rparr>
        | PublishOk \<Rightarrow>
            E2\<lparr>timers := (timers E2)
              (next_id E \<mapsto> now + (case timeout opts of
                                      None \<Rightarrow> default_timeout E2 | Some t \<Rightarrow> t))\<rparr>)"
    unfolding send_def Let_def E2_def E1p_def E1_def p by simp
  have i: "i = next_id E"
    using assms unfolded by simp
  have E': "E' = (case result of
                    PublishFailed \<Rightarrow> E2\<lparr>correlator := reject i TransportError (correlator E2)\<rparr>
                  | PublishOk \<Rightarrow>
                      E2\<lparr>timers := (timers E2)
                        (i \<mapsto> now + (case timeout opts of
                                       None \<Rightarrow> default_timeout E2 | Some t \<Rightarrow> t))\<rparr>)"
    using assms unfolded i by (cases result) auto
  have ev2: "events E2 = events E @ [Registered i, Published i]"
    by (simp add: E2_def handle_all_events E1p_def E1_def i)
  have ev: "events E' = events E @ [Registered i, Published i]"
    by (cases result) (simp_all add: E' ev2)
  have pc: "commands (correlator E1p) i =
      Some \<lparr>correlation_id = i, submitted_at = now, timeout_duration = timeout opts,
            resolution = pending, outcome = None\<rparr>"
    "handles (correlator E1p) i = handles (correlator E) i"
    by (simp_all add: E1p_def E1_def i register_pending)
  have echo: "handles (correlator E') i = handles (correlator E) i @ [reply_outcome st] \<and>
      commands (correlator E') i = None"
    if sent: "publish \<lparr>envelope_id = i, command = cmd\<rparr> =
        (PublishOk, before @ Reply i st # after)"
      and first: "\<forall>m \<in> set before. reply_id m \<noteq> Some i"
    for st before after
  proof -
    from sent p have r: "result = PublishOk" and inb: "inbound = before @ Reply i st # after"
      by (simp_all add: i)
    have "commands (correlator E2) i = None \<and>
        handles (correlator E2) i = handles (correlator E1p) i @ [reply_outcome st]"
      unfolding E2_def inb
      by (rule first_reply_is_delivered [OF pc(1) _ first]) simp
    then show ?thesis
      by (simp add: E' r pc(2))
  qed
  show ?thesis
  proof (intro conjI allI impI)
    show "i = next_id E" by (rule i)
    show "events E' = events E @ [Registered i, Published i]" by (rule ev)
  next
    fix st before after
    assume "publish \<lparr>envelope_id = i, command = cmd\<rparr> =
        (PublishOk, before @ Reply i st # after) \<and>
        (\<forall>m \<in> set before. reply_id m \<noteq> Some i)"
    then have "handles (correlator E') i = handles (correlator E) i @ [reply_outcome st] \<and>
        commands (correlator E') i = None"
      using echo [of before st after] by simp
    then show "handles (correlator E') i = handles (correlator E) i @ [reply_outcome st]"
      and "commands (correlator E') i = None"
      by simp_all
  qed
qed

text \<open>
  The test double of section 8 of the specification: a transport that echoes a reply as
  soon as it is asked to publish, here after an unrecognized message and a reply to
  another command.
\<close>

theorem send_registers_before_publish_witness:
  "fst (send (echo [Unrecognized, Reply 5 (Ok JUndefined)] (JString ''done'')) 0 (JString ''sync'')
       \<lparr>timeout = None\<rparr> initial_engine) = 0 \<and>
   events (snd (send (echo [Unrecognized, Reply 5 (Ok JUndefined)] (JString ''done'')) 0 (JString ''sync'')
       \<lparr>timeout = None\<rparr> initial_engine)) =
     [Registered 0, Published 0] \<and>
   echo [Unrecognized, Reply 5 (Ok JUndefined)] (JString ''done'')
       \<lparr>envelope_id = 0, command = JString ''sync''\<rparr> =
     (PublishOk, [Unrecognized, Reply 5 (Ok JUndefined)] @ Reply 0 (Ok (JString ''done'')) # []) \<and>
   reply_id Unrecognized \<noteq> Some 0 \<and>
   reply_id (Reply 5 (Ok JUndefined)) \<noteq> Some 0 \<and>
   handles (correlator (snd (send (echo [Unrecognized, Reply 5 (Ok JUndefined)] (JString ''done'')) 0 (JString ''sync'')
       \<lparr>timeout = None\<rparr> initial_engine))) 0 =
     [Result (JString ''done'')] \<and>
   commands (correlator (snd (send (echo [Unrecognized, Reply 5 (Ok JUndefined)] (JString ''done'')) 0 (JString ''sync'')
       \<lparr>timeout = None\<rparr> initial_engine))) 0 = None"
proof -
  let ?r = "send (echo [Unrecognized, Reply 5 (Ok JUndefined)] (JString ''done'')) 0 (JString ''sync'')
       \<lparr>timeout = None\<rparr> initial_engine"
  have e: "echo [Unrecognized, Reply 5 (Ok JUndefined)] (JString ''done'')
       \<lparr>envelope_id = 0, command = JString ''sync''\<rparr> =
     (PublishOk, [Unrecognized, Reply 5 (Ok JUndefined)] @ Reply 0 (Ok (JString ''done'')) # [])"
    by (simp add: echo_def)
  have b: "\<forall>m \<in> set [Unrecognized, Reply 5 (Ok JUndefined)]. reply_id m \<noteq> Some 0"
    by simp
  have s: "?r = (fst ?r, snd ?r)"
    by simp
  have n: "next_id initial_engine = 0" "events initial_engine = []"
    "handles (correlator initial_engine) 0 = []"
    by (simp_all add: initial_engine_def initial_correlator_def)
  from send_registers_before_publish [OF s]
  have t: "fst ?r = 0" and ev: "events (snd ?r) = [Registered 0, Published 0]"
    by (simp_all add: n)
  from send_registers_before_publish [OF s]
  have "\<forall>st before after.
      echo [Unrecognized, Reply 5 (Ok JUndefined)] (JString ''done'')
       \<lparr>envelope_id = 0, command = JString ''sync''\<rparr> =
        (PublishOk, before @ Reply 0 st # after) \<and>
      (\<forall>m \<in> set before. reply_id m \<noteq> Some 0) \<longrightarrow>
        handles (correlator (snd ?r)) 0 = [] @ [reply_outcome st] \<and>
        commands (correlator (snd ?r)) 0 = None"
    by (simp add: n t)
  from this [rule_format, of "[Unrecognized, Reply 5 (Ok JUndefined)]" "Ok (JString ''done'')" "[]"]
    e b
  have "handles (correlator (snd ?r)) 0 = [Result (JString ''done'')] \<and>
        commands (correlator (snd ?r)) 0 = None"
    by simp
  with t ev e show ?thesis by simp
qed

end
